theory Spec2Isabelle
  imports Main "HOL-Library.List_Lexorder" "HOL-Library.Char_ord" "HOL-Library.Multiset"
begin

section \<open>Strings\<close>

text \<open>
  Go strings are byte sequences; \<open>string\<close> is \<open>char list\<close> and \<open>char\<close> is a byte.
  With \<open>List_Lexorder\<close> and \<open>Char_ord\<close> the order on \<open>string\<close> is the bytewise
  lexicographic one, which is the order \<open>sort.Strings\<close> uses.
  The double quote is \<open>CHR 0x22\<close>, the single quote \<open>CHR 0x27\<close>, the line feed
  \<open>CHR 0x0A\<close>.
\<close>

text \<open>\<open>strings.Join(elems, sep)\<close>.\<close>

fun Join :: "string list \<Rightarrow> string \<Rightarrow> string" where
  "Join [] sep = []"
| "Join [x] sep = x"
| "Join (x # y # ys) sep = x @ sep @ Join (y # ys) sep"

text \<open>
  \<open>strings.ReplaceAll(s, old, new)\<close>: the non-overlapping occurrences of \<open>old\<close> are
  replaced from left to right; an empty \<open>old\<close> matches before every byte and at the end
  (Go matches at rune boundaries there; the middleware only calls it with a one-byte
  \<open>old\<close>).
\<close>

function replace_from :: "string \<Rightarrow> string \<Rightarrow> string \<Rightarrow> string" where
  "replace_from s old new =
     (if s = [] \<or> old = [] then s
      else if take (length old) s = old then new @ replace_from (drop (length old) s) old new
      else hd s # replace_from (tl s) old new)"
  by pat_completeness auto
termination
  by (relation "measure (\<lambda>(s, old, new). length s)") auto

declare replace_from.simps [simp del]

definition ReplaceAll :: "string \<Rightarrow> string \<Rightarrow> string \<Rightarrow> string" where
  "ReplaceAll s old new =
     (if old = [] then new @ concat (map (\<lambda>c. c # new) s) else replace_from s old new)"

text \<open>\<open>strings.HasPrefix(s, prefix)\<close>.\<close>

definition HasPrefix :: "string \<Rightarrow> string \<Rightarrow> bool" where
  "HasPrefix s p = (take (length p) s = p)"

section \<open>Raw validation errors\<close>

text \<open>
  The error values of the validation library, as far as the middleware looks at them.
  \<open>*openapi3.SchemaError\<close> carries what \<open>JSONPointer()\<close> returns and its \<open>Reason\<close>;
  \<open>*openapi3filter.RequestError\<close> its \<open>Parameter\<close> (nil or a parameter with \<open>In\<close> and
  \<open>Name\<close>), whether \<open>RequestBody\<close> is non-nil, and its \<open>Err\<close> (nil or an error);
  \<open>*openapi3filter.ResponseError\<close> its \<open>Err\<close>; \<open>openapi3.MultiError\<close> is a slice of
  errors. Every value carries, as its last field, the text its \<open>Error()\<close> method
  returns: that method belongs to the library, so the text is data here.
\<close>

datatype Parameter = Parameter (In: string) (Name: string)

datatype go_error =
    SchemaError "string list" string string
  | RequestError "Parameter option" bool "go_error option" string
  | ResponseError "go_error option" string
  | MultiError "go_error list" string
  | OtherError string

fun Error :: "go_error \<Rightarrow> string" where
  "Error (SchemaError path reason t) = t"
| "Error (RequestError p rb e t) = t"
| "Error (ResponseError e t) = t"
| "Error (MultiError es t) = t"
| "Error (OtherError t) = t"

section \<open>The issue map\<close>

text \<open>
  \<open>map[string][]string\<close> as an association list with distinct keys. Reading a
  missing key gives the nil slice, and \<open>issues[k] = append(issues[k], msgs...)\<close>
  creates the key when it is missing.
\<close>

type_synonym issues = "(string \<times> string list) list"

fun lookup :: "issues \<Rightarrow> string \<Rightarrow> string list" where
  "lookup [] k = []"
| "lookup ((k', v) # m) k = (if k' = k then v else lookup m k)"

fun append_issue :: "string \<Rightarrow> string list \<Rightarrow> issues \<Rightarrow> issues" where
  "append_issue k msgs [] = [(k, msgs)]"
| "append_issue k msgs ((k', v) # m) =
     (if k' = k then (k', v @ msgs) # m else (k', v) # append_issue k msgs m)"

text \<open>
  \<open>for k, v := range nested { issues[k] = append(issues[k], v...) }\<close>. Go visits the
  entries of \<open>nested\<close> in an unspecified order; the list order stands for it.
\<close>

fun merge_issues :: "issues \<Rightarrow> issues \<Rightarrow> issues" where
  "merge_issues [] issues = issues"
| "merge_issues ((k, v) # nested) issues = merge_issues nested (append_issue k v issues)"

section \<open>convertError (src/openapi.go, lines 130-177)\<close>

text \<open>The message of a schema error, lines 136-148.\<close>

definition schema_message :: "string list \<Rightarrow> string \<Rightarrow> string" where
  "schema_message path reason =
     (let field = (if length path > 0 then Join path ''.'' else []);
          msg = (if length field > 0 then field @ '': '' @ reason else reason)
      in ReplaceAll msg [CHR 0x22] [CHR 0x27])"

text \<open>
  The loop over the multi-error, with the map built so far as second argument.
  A request error with a parameter is filed under \<open>In.Name\<close> with \<open>err.Error()\<close>;
  one whose \<open>Err\<close> is a multi-error is converted recursively and merged; any other
  request error adds nothing (with a request body by \<open>continue\<close>, without one by
  leaving the switch); every other error value is filed under \<open>unknown\<close>.
\<close>

fun convert_loop :: "go_error list \<Rightarrow> issues \<Rightarrow> issues" where
  "convert_loop [] issues = issues"
| "convert_loop (SchemaError path reason t # rest) issues =
     convert_loop rest (append_issue ''schema'' [schema_message path reason] issues)"
| "convert_loop (RequestError (Some p) rb e t # rest) issues =
     convert_loop rest (append_issue (In p @ ''.'' @ Name p) [t] issues)"
| "convert_loop (RequestError None rb (Some (MultiError es t')) t # rest) issues =
     convert_loop rest (merge_issues (convert_loop es []) issues)"
| "convert_loop (RequestError None rb e t # rest) issues = convert_loop rest issues"
| "convert_loop (e # rest) issues =
     convert_loop rest (append_issue ''unknown'' [Error e] issues)"

definition convertError :: "go_error list \<Rightarrow> issues" where
  "convertError me = convert_loop me []"

text \<open>
  Lines 106-117: the keys are collected, sorted with \<open>sort.Strings\<close>, and the message
  lists are appended in that order.
\<close>

definition flatten_issues :: "issues \<Rightarrow> string list" where
  "flatten_issues issues = concat (map (lookup issues) (sort (map fst issues)))"

text \<open>
  For stating the order of the output: the pairs of key and message in the order in
  which \<open>convertError\<close> comes across them, nested multi-errors in place.
\<close>

fun discovered :: "go_error list \<Rightarrow> (string \<times> string) list" where
  "discovered [] = []"
| "discovered (SchemaError path reason t # rest) =
     (''schema'', schema_message path reason) # discovered rest"
| "discovered (RequestError (Some p) rb e t # rest) =
     (In p @ ''.'' @ Name p, t) # discovered rest"
| "discovered (RequestError None rb (Some (MultiError es t')) t # rest) =
     discovered es @ discovered rest"
| "discovered (RequestError None rb e t # rest) = discovered rest"
| "discovered (e # rest) = (''unknown'', Error e) # discovered rest"


section \<open>Requests, contexts and collaborators\<close>

text \<open>
  The error values the middleware and the handler return. \<open>ErrPathNotFound\<close> and
  \<open>ErrMethodNotAllowed\<close> are the two sentinel values of package \<open>routers\<close>;
  \<open>HTTPError\<close> is \<open>echo.NewHTTPError(code, message)\<close>; \<open>Errorf\<close> is an error made
  by \<open>fmt.Errorf\<close> with its text; \<open>LibraryError\<close> is any other error value of a
  library, with its text; \<open>Wrapping\<close> is an error with its text that wraps another
  (what \<open>Unwrap\<close> returns).
\<close>

datatype error =
    ErrPathNotFound
  | ErrMethodNotAllowed
  | HTTPError int string
  | Errorf string
  | LibraryError string
  | Wrapping string error

record Request =
  Method :: string
  URL :: string
  ReqHeader :: "(string \<times> string) list"
  ReqBody :: string

text \<open>
  \<open>openapi3filter.RequestValidationInput\<close>: the request, the path parameters and the
  route found for it, and the options the middleware sets (\<open>MultiError: true\<close>, no
  authentication).
\<close>

record 'o RequestValidationInput =
  InputRequest :: Request
  PathParams :: "(string \<times> string) list"
  Route :: 'o
  InputMultiError :: bool

text \<open>What the request-scoped store of \<open>echo.Context\<close> may hold under a key.\<close>

datatype 'o stored = StoredInput "'o RequestValidationInput" | StoredOther string

text \<open>What has been written to the client.\<close>

datatype wire =
    WriteJSON int string "string list"
  | WriteNoContent int
  | WriteBlob int string string

datatype log_entry =
    LogErrorf string string
  | LogDebugf string string

text \<open>The calls to collaborators, recorded in the order the code makes them.\<close>

datatype call =
    CallLoadFromFile string
  | CallValidate
  | CallNewRouter
  | CallFindRoute
  | CallValidateRequest
  | CallNext
  | CallGet string
  | CallSet string
  | CallMarshalJSON
  | CallMarshalXML
  | CallValidateResponse

text \<open>
  \<open>echo.Context\<close>: the route path \<open>c.Path()\<close>, the request, the store behind
  \<open>c.Get\<close>/\<open>c.Set\<close>, the status and header fields of \<open>c.Response()\<close>, what was
  written, what was logged and which collaborators were called.
\<close>

record 'o Context =
  Path :: string
  Req :: Request
  store :: "string \<rightharpoonup> 'o stored"
  Status :: int
  Header :: "(string \<times> string) list"
  written :: "wire list"
  logged :: "log_entry list"
  calls :: "call list"

definition record_call :: "call \<Rightarrow> 'o Context \<Rightarrow> 'o Context" where
  "record_call x c = c\<lparr>calls := calls c @ [x]\<rparr>"

definition log_entry :: "log_entry \<Rightarrow> 'o Context \<Rightarrow> 'o Context" where
  "log_entry x c = c\<lparr>logged := logged c @ [x]\<rparr>"

text \<open>The text \<open>%v\<close> prints for an error value.\<close>

fun error_text :: "error \<Rightarrow> string" where
  "error_text ErrPathNotFound = ''no matching operation was found''"
| "error_text ErrMethodNotAllowed = ''method not allowed''"
| "error_text (HTTPError code msg) = msg"
| "error_text (Errorf t) = t"
| "error_text (LibraryError t) = t"
| "error_text (Wrapping t inner) = t"

text \<open>
  The collaborators of the middleware: the loader, the structural validation of the
  document, the router built from it, route finding and request validation.
\<close>

record ('s, 'r, 'o) collaborators =
  LoadFromFile :: "string \<Rightarrow> error + 's"
  ValidateSchema :: "'s \<Rightarrow> error option"
  NewRouter :: "'s \<Rightarrow> error + 'r"
  FindRoute :: "'r \<Rightarrow> Request \<Rightarrow> error + ('o \<times> (string \<times> string) list)"
  ValidateRequest :: "'o RequestValidationInput \<Rightarrow> go_error option"

type_synonym 'o HandlerFunc = "'o Context \<Rightarrow> error option \<times> 'o Context"

section \<open>The middleware (src/openapi.go)\<close>

record 'o Config =
  Skipper :: "('o Context \<Rightarrow> bool) option"
  Schema :: string
  ContextKey :: string
  ExemptRoutes :: "(string \<times> string list) list"

text \<open>\<open>middleware.DefaultSkipper\<close> skips nothing.\<close>

definition DefaultSkipper :: "'o Context \<Rightarrow> bool" where
  "DefaultSkipper c = False"

definition DefaultConfig :: "'o Config" where
  "DefaultConfig =
     \<lparr>Skipper = Some DefaultSkipper, Schema = [], ContextKey = ''validator'', ExemptRoutes = []\<rparr>"

text \<open>
  \<open>check\<close>, lines 179-190. The exemption table is a Go map, visited in an
  unspecified order: the list order stands for it.
\<close>

fun contains_method :: "string \<Rightarrow> string list \<Rightarrow> bool" where
  "contains_method method [] = False"
| "contains_method method (i # v) = (if method = i then True else contains_method method v)"

fun check :: "string \<Rightarrow> string \<Rightarrow> (string \<times> string list) list \<Rightarrow> bool" where
  "check path method [] = False"
| "check path method ((k, v) # m) =
     (if k = path \<and> contains_method method v then True else check path method m)"

text \<open>\<open>JSONValidationError\<close>, lines 197-205: \<open>c.JSON\<close> writes the status and the body.\<close>

definition JSONValidationError ::
  "'o Context \<Rightarrow> int \<Rightarrow> string \<Rightarrow> string list \<Rightarrow> error option \<times> 'o Context" where
  "JSONValidationError c status msg errors =
     (None, c\<lparr>Status := status, written := written c @ [WriteJSON status msg errors]\<rparr>)"

text \<open>
  Lines 38-45: the defaults are filled in. The construction returns the middleware
  and has no failing branch; \<open>Inl\<close> stands for a panic.
\<close>

definition fill_defaults :: "'o Config \<Rightarrow> 'o Config" where
  "fill_defaults config =
     (let config1 = (if Skipper config = None
                     then config\<lparr>Skipper := Skipper DefaultConfig\<rparr> else config)
      in if ContextKey config1 = [] then config1\<lparr>ContextKey := ContextKey (DefaultConfig :: 'o Config)\<rparr>
         else config1)"

definition skips :: "'o Config \<Rightarrow> 'o Context \<Rightarrow> bool" where
  "skips config c = (case Skipper config of None \<Rightarrow> False | Some f \<Rightarrow> f c)"

text \<open>Lines 101-121: the switch on the result of \<open>ValidateRequest\<close>.\<close>

definition report_request_error :: "'o Context \<Rightarrow> go_error \<Rightarrow> error option \<times> 'o Context" where
  "report_request_error c err =
     (case err of
        MultiError me t \<Rightarrow>
          JSONValidationError c 422 ''Validation error'' (flatten_issues (convertError me))
      | _ \<Rightarrow> JSONValidationError c 422 ''Validation error'' [Error err])"

text \<open>Lines 77-126: route resolution, request validation, the context value, \<open>next\<close>.\<close>

definition resolve_and_validate ::
  "('s, 'r, 'o) collaborators \<Rightarrow> 'o Config \<Rightarrow> 'o HandlerFunc \<Rightarrow> 'r \<Rightarrow> 'o HandlerFunc" where
  "resolve_and_validate env config next r c =
     (let c1 = record_call CallFindRoute c in
      case FindRoute env r (Req c1) of
        Inl err \<Rightarrow>
          (let c2 = log_entry (LogDebugf (URL (Req c1)) (error_text err)) c1 in
           if err = ErrPathNotFound then (Some (HTTPError 404 ''Path not found''), c2)
           else if err = ErrMethodNotAllowed then (Some (HTTPError 405 ''Method not allowed''), c2)
           else (Some err, c2))
      | Inr (route, pathParams) \<Rightarrow>
          (let requestValidationInput =
                 \<lparr>InputRequest = Req c1, PathParams = pathParams, Route = route,
                  InputMultiError = True\<rparr>;
               c2 = record_call CallValidateRequest c1 in
           case ValidateRequest env requestValidationInput of
             Some err \<Rightarrow> report_request_error c2 err
           | None \<Rightarrow>
               (let c3 = record_call (CallSet (ContextKey config))
                           (c2\<lparr>store := (store c2)(ContextKey config \<mapsto> StoredInput requestValidationInput)\<rparr>)
                in next (record_call CallNext c3))))"

text \<open>Lines 48-75: the handler the middleware wraps around \<open>next\<close>.\<close>

definition handle ::
  "('s, 'r, 'o) collaborators \<Rightarrow> 'o Config \<Rightarrow> 'o HandlerFunc \<Rightarrow> 'o HandlerFunc" where
  "handle env config next c =
     (if skips config c then next (record_call CallNext c)
      else if check (Path c) (Method (Req c)) (ExemptRoutes config) then next (record_call CallNext c)
      else
        (let c1 = record_call (CallLoadFromFile (Schema config)) c in
         case LoadFromFile env (Schema config) of
           Inl err \<Rightarrow>
             (Some err, log_entry (LogErrorf ''error loading schema file'' (error_text err)) c1)
         | Inr schema \<Rightarrow>
             (let c2 = record_call CallValidate c1 in
              case ValidateSchema env schema of
                Some err \<Rightarrow>
                  (Some err, log_entry (LogErrorf ''error validating schema'' (error_text err)) c2)
              | None \<Rightarrow>
                  (let c3 = record_call CallNewRouter c2 in
                   case NewRouter env schema of
                     Inl err \<Rightarrow>
                       (Some err, log_entry (LogErrorf ''error creating router'' (error_text err)) c3)
                   | Inr r \<Rightarrow> resolve_and_validate env config next r c3))))"

definition OpenAPIWithConfig ::
  "('s, 'r, 'o) collaborators \<Rightarrow> 'o Config \<Rightarrow> string + ('o HandlerFunc \<Rightarrow> 'o HandlerFunc)" where
  "OpenAPIWithConfig env config = Inr (handle env (fill_defaults config))"

definition OpenAPI ::
  "('s, 'r, 'o) collaborators \<Rightarrow> string \<Rightarrow> string + ('o HandlerFunc \<Rightarrow> 'o HandlerFunc)" where
  "OpenAPI env file = OpenAPIWithConfig env (DefaultConfig\<lparr>Schema := file\<rparr>)"

section \<open>The later variant of the middleware (appended to src/handler_test.go)\<close>

text \<open>
  After its tests, src/handler_test.go holds a second, later text of the
  middleware (lines 143-395 of that file). It differs from src/openapi.go in these
  places: the document is loaded, validated and turned into a router when the
  middleware is built, with a panic on failure; the router's sentinels are
  recognised with \<open>errors.Is\<close>; \<open>convertError\<close> files schema errors under their field,
  builds the message of a parameter error from the first line of the cause and
  files request body errors under \<open>body\<close>; a \<open>body\<close> entry is answered with status
  400; and an error of request validation that is no multi-error is returned as it
  is. It is modelled with the suffix \<open>_later\<close>.
\<close>

text \<open>\<open>strings.Split(s, sep)\<close> for a separator of one byte.\<close>

fun Split :: "string \<Rightarrow> char \<Rightarrow> string list" where
  "Split [] sep = [[]]"
| "Split (c # cs) sep =
     (if c = sep then [] # Split cs sep
      else (case Split cs sep of [] \<Rightarrow> [[c]] | x # xs \<Rightarrow> (c # x) # xs))"

text \<open>
  Lines 316-367 of src/handler_test.go. \<open>None\<close> stands for a panic: the call
  \<open>err.Err.Error()\<close> on a parameter error whose \<open>Err\<close> is nil, or an index out of
  range in \<open>split[0]\<close>.
\<close>

definition parameter_message_later :: "Parameter \<Rightarrow> go_error option \<Rightarrow> string option" where
  "parameter_message_later p e =
     (case e of
        None \<Rightarrow> None
      | Some cause \<Rightarrow>
          (case Split (Error cause) (CHR 0x0A) of
             [] \<Rightarrow> None
           | first # others \<Rightarrow>
               Some (''parameter '' @ [CHR 0x27] @ Name p @ [CHR 0x27] @ '' in '' @ In p
                     @ '' has an error: '' @ first)))"

definition schema_field :: "string list \<Rightarrow> string" where
  "schema_field path = (if length path > 0 then Join path ''.'' else [])"

fun convert_loop_later :: "go_error list \<Rightarrow> issues \<Rightarrow> issues option" where
  "convert_loop_later [] issues = Some issues"
| "convert_loop_later (SchemaError path reason t # rest) issues =
     convert_loop_later rest
       (append_issue (schema_field path) [schema_message path reason] issues)"
| "convert_loop_later (RequestError (Some p) rb e t # rest) issues =
     (case parameter_message_later p e of
        None \<Rightarrow> None
      | Some msg \<Rightarrow> convert_loop_later rest (append_issue (In p @ ''.'' @ Name p) [msg] issues))"
| "convert_loop_later (RequestError None rb (Some (MultiError es t')) t # rest) issues =
     (case convert_loop_later es [] of
        None \<Rightarrow> None
      | Some nested \<Rightarrow> convert_loop_later rest (merge_issues nested issues))"
| "convert_loop_later (RequestError None rb e t # rest) issues =
     (if rb then convert_loop_later rest (append_issue ''body'' [t] issues)
      else convert_loop_later rest issues)"
| "convert_loop_later (e # rest) issues =
     convert_loop_later rest (append_issue ''unknown'' [Error e] issues)"

definition convertError_later :: "go_error list \<Rightarrow> issues option" where
  "convertError_later me = convert_loop_later me []"

text \<open>\<open>val, ok := issues["body"]\<close>.\<close>

fun find_issue :: "issues \<Rightarrow> string \<Rightarrow> string list option" where
  "find_issue [] k = None"
| "find_issue ((k', v) # m) k = (if k' = k then Some v else find_issue m k)"

text \<open>
  The configuration and the collaborators of the later variant: the document may
  also be given as bytes, loaded with \<open>LoadFromData\<close>.
\<close>

record 'o Config_later = "'o Config" +
  SchemaBytes :: string

record ('s, 'r, 'o) collaborators_later = "('s, 'r, 'o) collaborators" +
  LoadFromData :: "string \<Rightarrow> error + 's"

text \<open>\<open>errors.Is(err, target)\<close> for a sentinel target: \<open>err\<close> or an error it wraps.\<close>

fun errors_Is :: "error \<Rightarrow> error \<Rightarrow> bool" where
  "errors_Is (Wrapping t inner) target =
     (Wrapping t inner = target \<or> errors_Is inner target)"
| "errors_Is err target = (err = target)"

text \<open>
  Lines 283-307 of src/handler_test.go: the switch on the result of
  \<open>ValidateRequest\<close>. The outer \<open>None\<close> stands for a panic of \<open>convertError\<close>.
\<close>

definition report_request_error_later ::
  "'o Context \<Rightarrow> go_error \<Rightarrow> (error option \<times> 'o Context) option" where
  "report_request_error_later c err =
     (case err of
        MultiError me t \<Rightarrow>
          (case convertError_later me of
             None \<Rightarrow> None
           | Some issues \<Rightarrow>
               (case find_issue issues ''body'' of
                  Some val \<Rightarrow> Some (JSONValidationError c 400 ''Request error'' val)
                | None \<Rightarrow>
                    Some (JSONValidationError c 422 ''Validation error'' (flatten_issues issues))))
      | _ \<Rightarrow> Some (Some (LibraryError (Error err)), c))"

text \<open>Lines 245-311 of src/handler_test.go: the handler around \<open>next\<close>.\<close>

definition handle_later ::
  "('s, 'r, 'o, 'x) collaborators_later_scheme \<Rightarrow> ('o, 'y) Config_scheme \<Rightarrow> 'r
     \<Rightarrow> ('o Context \<Rightarrow> (error option \<times> 'o Context) option)
     \<Rightarrow> 'o Context \<Rightarrow> (error option \<times> 'o Context) option" where
  "handle_later env config router next c =
     (if (case Skipper config of None \<Rightarrow> False | Some skipper \<Rightarrow> skipper c)
      then next (record_call CallNext c)
      else if check (Path c) (Method (Req c)) (ExemptRoutes config)
      then next (record_call CallNext c)
      else
        (let c1 = record_call CallFindRoute c in
         case FindRoute env router (Req c1) of
           Inl err \<Rightarrow>
             (let c2 = log_entry (LogDebugf (URL (Req c1)) (error_text err)) c1 in
              if errors_Is err ErrPathNotFound
              then Some (Some (HTTPError 404 ''Path not found''), c2)
              else if errors_Is err ErrMethodNotAllowed
              then Some (Some (HTTPError 405 ''Method not allowed''), c2)
              else Some (Some err, c2))
         | Inr (route, pathParams) \<Rightarrow>
             (let requestValidationInput =
                    \<lparr>InputRequest = Req c1, PathParams = pathParams, Route = route,
                     InputMultiError = True\<rparr>;
                  c2 = record_call CallValidateRequest c1 in
              case ValidateRequest env requestValidationInput of
                Some err \<Rightarrow> report_request_error_later c2 err
              | None \<Rightarrow>
                  (let c3 = record_call (CallSet (ContextKey config))
                              (c2\<lparr>store := (store c2)(ContextKey config \<mapsto>
                                             StoredInput requestValidationInput)\<rparr>)
                   in next (record_call CallNext c3)))))"

text \<open>
  Lines 206-243 of src/handler_test.go: the construction. \<open>Inl\<close> is a panic with its
  message; \<open>Inr\<close> is the middleware, which holds the router.
\<close>

definition OpenAPIWithConfig_later ::
  "('s, 'r, 'o) collaborators_later \<Rightarrow> 'o Config_later
     \<Rightarrow> string + (('o Context \<Rightarrow> (error option \<times> 'o Context) option)
                   \<Rightarrow> 'o Context \<Rightarrow> (error option \<times> 'o Context) option)" where
  "OpenAPIWithConfig_later env config =
     (let config1 = (if Skipper config = None
                     then config\<lparr>Skipper := Some DefaultSkipper\<rparr> else config)
      in if Schema config1 = [] \<and> length (SchemaBytes config1) = 0
         then Inl ''either schema or schemaBytes is required''
         else
           (let config2 = (if ContextKey config1 = []
                           then config1\<lparr>ContextKey := ''validator''\<rparr> else config1)
            in case (if length (SchemaBytes config2) > 0
                     then LoadFromData env (SchemaBytes config2)
                     else LoadFromFile env (Schema config2)) of
                 Inl err \<Rightarrow> Inl (''failed loading schema file: '' @ error_text err)
               | Inr schema \<Rightarrow>
                   (case ValidateSchema env schema of
                      Some err \<Rightarrow> Inl (''failed validating schema: '' @ error_text err)
                    | None \<Rightarrow>
                        (case NewRouter env schema of
                           Inl err \<Rightarrow> Inl (''failed creating router: '' @ error_text err)
                         | Inr router \<Rightarrow> Inr (handle_later env config2 router)))))"

section \<open>The handler (src/handler.go)\<close>

text \<open>
  The file holds two variants of the handler: lines 1-120 and lines 121-282. Both are
  modelled, the first with the suffix \<open>_first\<close>, the second with \<open>_second\<close>.
  The value handed to \<open>Validate\<close> is a string, a byte slice or anything else; what
  \<open>json.Marshal\<close>, \<open>xml.Marshal\<close> and \<open>%s\<close> make of it is the collaborators'
  business, as is \<open>openapi3filter.ValidateResponse\<close>.
\<close>

datatype any = AString string | ABytes string | AOther string

record HandlerConfig =
  ContentType :: string
  ValidatorKey :: string
  ExcludeRequestBody :: bool
  ExcludeResponseBody :: bool
  IncludeResponseStatus :: bool
  MultiErrorOption :: bool

record 'o ResponseValidationInput =
  RequestInput :: "'o RequestValidationInput"
  ResponseStatus :: int
  ResponseHeader :: "(string \<times> string) list"
  OptExcludeRequestBody :: bool
  OptExcludeResponseBody :: bool
  OptIncludeResponseStatus :: bool
  OptMultiError :: bool
  BodyBytes :: string

record 'o handler_collaborators =
  json_Marshal :: "any \<Rightarrow> string + string"
  xml_Marshal :: "any \<Rightarrow> string + string"
  Sprint :: "any \<Rightarrow> string"
  ValidateResponse :: "'o ResponseValidationInput \<Rightarrow> go_error option"

definition ApplicationJSON :: string where
  "ApplicationJSON = ''application/json''"

definition ApplicationXML :: string where
  "ApplicationXML = ''application/xml''"

definition MIMETextPlain :: string where
  "MIMETextPlain = ''text/plain''"

definition DefaultHandlerConfig :: HandlerConfig where
  "DefaultHandlerConfig =
     \<lparr>ContentType = ApplicationJSON, ValidatorKey = ''validator'', ExcludeRequestBody = False,
      ExcludeResponseBody = False, IncludeResponseStatus = True, MultiErrorOption = True\<rparr>"

text \<open>Lines 54-56: the first variant takes the configuration as it is.\<close>

definition NewHandlerWithConfig_first :: "HandlerConfig \<Rightarrow> HandlerConfig" where
  "NewHandlerWithConfig_first config = config"

text \<open>Lines 182-192: the second variant fills in the content type and the key.\<close>

definition NewHandlerWithConfig_second :: "HandlerConfig \<Rightarrow> HandlerConfig" where
  "NewHandlerWithConfig_second config =
     (let config1 = (if ContentType config = []
                     then config\<lparr>ContentType := ContentType DefaultHandlerConfig\<rparr> else config)
      in if ValidatorKey config1 = []
         then config1\<lparr>ValidatorKey := ValidatorKey DefaultHandlerConfig\<rparr> else config1)"

text \<open>
  \<open>c.NoContent(code)\<close> writes the status line with no body; \<open>c.Blob(code, contentType, b)\<close>
  sets the content type, writes the status line and the bytes. \<open>Header().Add\<close> appends
  an entry, \<open>Header().Set\<close> replaces the entries of the key.
\<close>

definition header_Add :: "string \<Rightarrow> string \<Rightarrow> 'o Context \<Rightarrow> 'o Context" where
  "header_Add k v c = c\<lparr>Header := Header c @ [(k, v)]\<rparr>"

definition header_Set :: "string \<Rightarrow> string \<Rightarrow> 'o Context \<Rightarrow> 'o Context" where
  "header_Set k v c = c\<lparr>Header := filter (\<lambda>e. fst e \<noteq> k) (Header c) @ [(k, v)]\<rparr>"

definition NoContent :: "'o Context \<Rightarrow> int \<Rightarrow> error option \<times> 'o Context" where
  "NoContent c code = (None, c\<lparr>Status := code, written := written c @ [WriteNoContent code]\<rparr>)"

definition Blob :: "'o Context \<Rightarrow> int \<Rightarrow> string \<Rightarrow> string \<Rightarrow> error option \<times> 'o Context" where
  "Blob c code contentType b =
     (let c1 = header_Set ''Content-Type'' contentType c
      in (None, c1\<lparr>Status := code, written := written c1 @ [WriteBlob code contentType b]\<rparr>))"

text \<open>
  \<open>c.Get(key).(*openapi3filter.RequestValidationInput)\<close>: the assertion holds only
  for a stored validation input.
\<close>

definition get_input :: "'o Context \<Rightarrow> string \<Rightarrow> 'o RequestValidationInput option" where
  "get_input c key = (case store c key of Some (StoredInput input) \<Rightarrow> Some input | _ \<Rightarrow> None)"

text \<open>First variant, lines 81-90: the bytes of the body.\<close>

definition marshal_first ::
  "'o handler_collaborators \<Rightarrow> 'o Context \<Rightarrow> string \<Rightarrow> any \<Rightarrow> (string + string) \<times> 'o Context" where
  "marshal_first env c contentType v =
     (if HasPrefix contentType ApplicationJSON
      then (json_Marshal env v, record_call CallMarshalJSON c)
      else if HasPrefix contentType ApplicationXML
      then (xml_Marshal env v, record_call CallMarshalXML c)
      else (case v of AString s \<Rightarrow> (Inr s, c) | _ \<Rightarrow> (Inr [], c)))"

text \<open>First variant, lines 66-120.\<close>

definition validate_first ::
  "'o handler_collaborators \<Rightarrow> HandlerConfig \<Rightarrow> 'o Context \<Rightarrow> int \<Rightarrow> string \<Rightarrow> any
     \<Rightarrow> error option \<times> 'o Context" where
  "validate_first env h c code contentType v =
     (if code = 204 then NoContent c code
      else
        (let c1 = record_call (CallGet (ValidatorKey h)) c in
         case get_input c1 (ValidatorKey h) of
           None \<Rightarrow> (Some (Errorf ''validator key is wrong type''), c1)
         | Some input \<Rightarrow>
             (case marshal_first env c1 contentType v of
                (Inl err, c2) \<Rightarrow> (Some (Errorf (''failed marshaling response: '' @ err)), c2)
              | (Inr b, c2) \<Rightarrow>
                  (let c3 = header_Add ''Content-Type'' contentType (c2\<lparr>Status := code\<rparr>);
                       responseValidationInput =
                         \<lparr>RequestInput = input, ResponseStatus = Status c3,
                          ResponseHeader = Header c3,
                          OptExcludeRequestBody = ExcludeRequestBody h,
                          OptExcludeResponseBody = ExcludeResponseBody h,
                          OptIncludeResponseStatus = IncludeResponseStatus h,
                          OptMultiError = MultiErrorOption h, BodyBytes = b\<rparr>;
                       c4 = record_call CallValidateResponse c3 in
                   case ValidateResponse env responseValidationInput of
                     Some err \<Rightarrow>
                       (Some (Errorf (''failed validating response: '' @ Error err)),
                        log_entry (LogDebugf [] (Error err)) c4)
                   | None \<Rightarrow> Blob c4 code (ContentType h) b))))"

definition Validate_first ::
  "'o handler_collaborators \<Rightarrow> HandlerConfig \<Rightarrow> 'o Context \<Rightarrow> int \<Rightarrow> any
     \<Rightarrow> error option \<times> 'o Context" where
  "Validate_first env h c code v = validate_first env h c code (ContentType h) v"

definition ValidateWithContentType_first ::
  "'o handler_collaborators \<Rightarrow> HandlerConfig \<Rightarrow> 'o Context \<Rightarrow> int \<Rightarrow> string \<Rightarrow> any
     \<Rightarrow> error option \<times> 'o Context" where
  "ValidateWithContentType_first env h c code contentType v =
     validate_first env h c code contentType v"

text \<open>
  Second variant, lines 220-233: the content type header and the bytes of the body;
  a value that is neither a string nor a byte slice ends the call with an error when
  the content type is not JSON.
\<close>

definition marshal_second ::
  "'o handler_collaborators \<Rightarrow> 'o Context \<Rightarrow> string \<Rightarrow> any
     \<Rightarrow> (error + (string + string)) \<times> 'o Context" where
  "marshal_second env c contentType v =
     (if HasPrefix contentType ApplicationJSON
      then (Inr (json_Marshal env v),
            record_call CallMarshalJSON (header_Add ''Content-Type'' contentType c))
      else
        (let c1 = header_Add ''Content-Type'' MIMETextPlain c in
         case v of
           AString s \<Rightarrow> (Inr (Inr s), c1)
         | ABytes b \<Rightarrow> (Inr (Inr b), c1)
         | AOther x \<Rightarrow> (Inl (Errorf (''type '' @ Sprint env v @ '' not supported'')), c1)))"

text \<open>
  Second variant, lines 252-281: what becomes of the result of \<open>ValidateResponse\<close>.
  A response error whose \<open>Err\<close> is a multi-error is converted (by the package's
  \<open>convertError\<close>, the argument \<open>conv\<close>) and returned as an error; a response error
  whose \<open>Err\<close> is anything else leaves the switch without a return, and so does no
  error: the code after the switch sends the blob. Every other error is returned.
\<close>

definition after_validation_second ::
  "(go_error list \<Rightarrow> issues) \<Rightarrow> HandlerConfig \<Rightarrow> 'o Context \<Rightarrow> int \<Rightarrow> string
     \<Rightarrow> go_error option \<Rightarrow> error option \<times> 'o Context" where
  "after_validation_second conv h c code b result =
     (case result of
        None \<Rightarrow> Blob c code (ContentType h) b
      | Some (ResponseError (Some (MultiError me t)) t') \<Rightarrow>
          (Some (Errorf (''failed validating response: '' @ Join (flatten_issues (conv me)) ''; '')), c)
      | Some (ResponseError e t') \<Rightarrow> Blob c code (ContentType h) b
      | Some err \<Rightarrow> (Some (Errorf (''failed validating response: '' @ Error err)), c))"

text \<open>Second variant, lines 202-282.\<close>

definition validate_second ::
  "(go_error list \<Rightarrow> issues) \<Rightarrow> 'o handler_collaborators \<Rightarrow> HandlerConfig \<Rightarrow> 'o Context
     \<Rightarrow> int \<Rightarrow> string \<Rightarrow> any \<Rightarrow> error option \<times> 'o Context" where
  "validate_second conv env h c code contentType v =
     (if code = 204 then NoContent c code
      else
        (let c1 = record_call (CallGet (ValidatorKey h)) (c\<lparr>Status := code\<rparr>) in
         case get_input c1 (ValidatorKey h) of
           None \<Rightarrow> (Some (Errorf ''validator key is wrong type''), c1)
         | Some input \<Rightarrow>
             (case marshal_second env c1 contentType v of
                (Inl err, c2) \<Rightarrow> (Some err, c2)
              | (Inr (Inl err), c2) \<Rightarrow>
                  (Some (Errorf (''failed marshaling response: '' @ err)), c2)
              | (Inr (Inr b), c2) \<Rightarrow>
                  (let responseValidationInput =
                         \<lparr>RequestInput = input, ResponseStatus = Status c2,
                          ResponseHeader = Header c2,
                          OptExcludeRequestBody = ExcludeRequestBody h,
                          OptExcludeResponseBody = ExcludeResponseBody h,
                          OptIncludeResponseStatus = IncludeResponseStatus h,
                          OptMultiError = True, BodyBytes = b\<rparr>;
                       c3 = record_call CallValidateResponse c2
                   in after_validation_second conv h c3 code b
                        (ValidateResponse env responseValidationInput)))))"

definition Validate_second ::
  "(go_error list \<Rightarrow> issues) \<Rightarrow> 'o handler_collaborators \<Rightarrow> HandlerConfig \<Rightarrow> 'o Context
     \<Rightarrow> int \<Rightarrow> any \<Rightarrow> error option \<times> 'o Context" where
  "Validate_second conv env h c code v = validate_second conv env h c code (ContentType h) v"

definition ValidateWithContentType_second ::
  "(go_error list \<Rightarrow> issues) \<Rightarrow> 'o handler_collaborators \<Rightarrow> HandlerConfig \<Rightarrow> 'o Context
     \<Rightarrow> int \<Rightarrow> string \<Rightarrow> any \<Rightarrow> error option \<times> 'o Context" where
  "ValidateWithContentType_second conv env h c code contentType v =
     validate_second conv env h c code contentType v"

section \<open>Sample values\<close>

text \<open>
  Concrete requests and collaborators, after the fixtures of the test files: a
  document that loads, a router that knows \<open>/\<close> (GET) and \<open>/validation\<close> (POST),
  and a request validation that finds the errors listed for the request body.
\<close>

text \<open>
  The library prints a schema error as a first line followed by the schema and the
  value; \<open>quoted\<close> puts a text between double quotes.
\<close>

definition quoted :: "string \<Rightarrow> string" where
  "quoted s = [CHR 0x22] @ s @ [CHR 0x22]"

definition schema_and_value :: "string \<Rightarrow> string" where
  "schema_and_value v =
     [CHR 0x0A] @ ''Schema:'' @ [CHR 0x0A] @ ''  {}'' @ [CHR 0x0A] @ ''Value:'' @ [CHR 0x0A]
     @ ''  '' @ v @ [CHR 0x0A]"

definition sample_request :: "string \<Rightarrow> string \<Rightarrow> string \<Rightarrow> Request" where
  "sample_request method url body =
     \<lparr>Method = method, URL = url, ReqHeader = [(''Content-Type'', ''application/json'')],
      ReqBody = body\<rparr>"

definition sample_context :: "string \<Rightarrow> string \<Rightarrow> string \<Rightarrow> unit Context" where
  "sample_context method path body =
     \<lparr>Path = path, Req = sample_request method path body, store = Map.empty, Status = 200,
      Header = [], written = [], logged = [], calls = []\<rparr>"

definition ok_handler :: "unit HandlerFunc" where
  "ok_handler c =
     (None, c\<lparr>written := written c @ [WriteBlob 200 ''application/json'' ''ok'']\<rparr>)"

definition missing_body_error :: go_error where
  "missing_body_error =
     RequestError None True (Some (OtherError ''value is required but missing''))
       ''request body has an error: value is required but missing''"

definition sample_find_route ::
  "unit \<Rightarrow> Request \<Rightarrow> error + (unit \<times> (string \<times> string) list)" where
  "sample_find_route r req =
     (if URL req = ''/'' then (if Method req = ''GET'' then Inr ((), []) else Inl ErrMethodNotAllowed)
      else if URL req = ''/validation''
      then (if Method req = ''POST'' then Inr ((), []) else Inl ErrMethodNotAllowed)
      else if URL req = ''/broken'' then Inl (LibraryError ''no matching operation was found'')
      else Inl ErrPathNotFound)"

definition sample_validate_request :: "unit RequestValidationInput \<Rightarrow> go_error option" where
  "sample_validate_request input =
     (if URL (InputRequest input) = ''/validation'' \<and> ReqBody (InputRequest input) = []
      then Some (MultiError [missing_body_error]
                   ''request body has an error: value is required but missing'')
      else None)"

definition sample_collaborators :: "(unit, unit, unit) collaborators" where
  "sample_collaborators =
     \<lparr>LoadFromFile = (\<lambda>file. if file = ''./fixtures/openapi.yaml'' then Inr ()
                              else Inl (LibraryError ''no such file or directory'')),
      ValidateSchema = (\<lambda>schema. None),
      NewRouter = (\<lambda>schema. Inr ()),
      FindRoute = sample_find_route,
      ValidateRequest = sample_validate_request\<rparr>"

definition sample_config :: "unit Config" where
  "sample_config =
     \<lparr>Skipper = None, Schema = ''./fixtures/openapi.yaml'', ContextKey = [],
      ExemptRoutes = [(''/validation'', [''GET'', ''POST''])]\<rparr>"

text \<open>
  For the handler: the context the middleware leaves behind for \<open>GET /\<close>, whose
  response must be an object, and collaborators that marshal the sample values and
  reject the body \<open>42\<close>, a number where an object is declared, with a response error
  whose \<open>Err\<close> is a single schema error.
\<close>

definition sample_input :: "unit RequestValidationInput" where
  "sample_input =
     \<lparr>InputRequest = sample_request ''GET'' ''/'' [], PathParams = [], Route = (),
      InputMultiError = True\<rparr>"

definition sample_handler_context :: "unit Context" where
  "sample_handler_context =
     (sample_context ''GET'' ''/'' [])\<lparr>store := [''validator'' \<mapsto> StoredInput sample_input]\<rparr>"

definition not_an_object :: go_error where
  "not_an_object =
     ResponseError
       (Some (SchemaError [] ''value must be an object''
                (''value must be an object'' @ schema_and_value ''42'')))
       (''response body doesn'' @ [CHR 0x27] @ ''t match schema: value must be an object''
        @ schema_and_value ''42'')"

definition sample_handler_collaborators :: "unit handler_collaborators" where
  "sample_handler_collaborators =
     \<lparr>json_Marshal = (\<lambda>v. case v of AString s \<Rightarrow> Inr ([CHR 0x22] @ s @ [CHR 0x22])
                                | ABytes b \<Rightarrow> Inr b | AOther x \<Rightarrow> Inr x),
      xml_Marshal = (\<lambda>v. Inl ''xml: unsupported type''),
      Sprint = (\<lambda>v. ''%!s(int=42)''),
      ValidateResponse = (\<lambda>input. if BodyBytes input = ''42'' then Some not_an_object else None)\<rparr>"

text \<open>
  Raw errors after the request validation cases of the tests: a body with a number
  for \<open>username\<close> and an unsupported property, a path parameter that is too short
  and a query parameter that is too large. The texts are the ones the library
  prints, a first line followed by the schema and the value.
\<close>

definition username_not_a_string :: go_error where
  "username_not_a_string =
     SchemaError [''username''] ''value must be a string''
       (''Error at '' @ quoted ''/username'' @ '': value must be a string''
        @ schema_and_value ''1'')"

definition property_unsupported :: go_error where
  "property_unsupported =
     SchemaError [] (''property '' @ quoted ''invalid'' @ '' is unsupported'')
       (''property '' @ quoted ''invalid'' @ '' is unsupported'' @ schema_and_value ''{}'')"

definition username_too_short :: go_error where
  "username_too_short =
     RequestError (Some (Parameter ''path'' ''username'')) False
       (Some (SchemaError [] ''minimum string length is 2''
                (''minimum string length is 2'' @ schema_and_value (quoted ''a''))))
       (''parameter '' @ quoted ''username''
        @ '' in path has an error: minimum string length is 2'' @ schema_and_value (quoted ''a''))"

definition limit_too_large :: go_error where
  "limit_too_large =
     RequestError (Some (Parameter ''query'' ''limit'')) False
       (Some (SchemaError [] ''number must be at most 100''
                (''number must be at most 100'' @ schema_and_value ''200'')))
       (''parameter '' @ quoted ''limit''
        @ '' in query has an error: number must be at most 100'' @ schema_and_value ''200'')"

text \<open>The same collaborators and configuration for the later variant.\<close>

definition sample_collaborators_later :: "(unit, unit, unit) collaborators_later" where
  "sample_collaborators_later =
     \<lparr>LoadFromFile = (\<lambda>file. if file = ''./fixtures/openapi.yaml'' then Inr ()
                              else Inl (LibraryError ''no such file or directory'')),
      ValidateSchema = (\<lambda>schema. None),
      NewRouter = (\<lambda>schema. Inr ()),
      FindRoute = sample_find_route,
      ValidateRequest = sample_validate_request,
      LoadFromData = (\<lambda>data. Inl (LibraryError ''failed to unmarshal data''))\<rparr>"

definition sample_config_later :: "unit Config_later" where
  "sample_config_later =
     \<lparr>Skipper = None, Schema = ''./fixtures/openapi.yaml'', ContextKey = [],
      ExemptRoutes = [], SchemaBytes = []\<rparr>"

definition ok_handler_later :: "unit Context \<Rightarrow> (error option \<times> unit Context) option" where
  "ok_handler_later c = Some (ok_handler c)"

lemma replace_from_single:
  "replace_from s [a] [b] = map (\<lambda>c. if c = a then b else c) s"
proof (induction s)
  case Nil
  show ?case by (simp add: replace_from.simps)
next
  case (Cons x xs)
  then show ?case by (subst replace_from.simps) simp
qed


section \<open>Exempt routes\<close>

lemma contains_method_iff: "contains_method method v \<longleftrightarrow> method \<in> set v"
  by (induction v) auto

lemma check_iff:
  "check path method m \<longleftrightarrow> (\<exists>v. (path, v) \<in> set m \<and> method \<in> set v)"
  by (induction m) (auto simp: contains_method_iff split: if_splits)

lemma ExemptRoutes_fill_defaults [simp]:
  "ExemptRoutes (fill_defaults config) = ExemptRoutes config"
  by (simp add: fill_defaults_def Let_def)

text \<open>
  C8. When the route path and the method of a request appear together in the
  exemption table, the middleware built by \<open>OpenAPIWithConfig\<close> hands the request to
  the downstream handler: its result is the handler's result on a context to which
  nothing was done but recording the call of the handler, so no schema was loaded,
  no route resolved and no request validated, whatever the collaborators would have
  answered.
\<close>

theorem exempt_route_reaches_handler:
  assumes "(Path c, v) \<in> set (ExemptRoutes config)"
    and "Method (Req c) \<in> set v"
    and "OpenAPIWithConfig env config = Inr mw"
  shows "mw next c = next (record_call CallNext c)"
proof -
  have chk: "check (Path c) (Method (Req c)) (ExemptRoutes (fill_defaults config))"
    using assms(1,2) by (auto simp: check_iff)
  have "mw = handle env (fill_defaults config)"
    using assms(3) by (simp add: OpenAPIWithConfig_def)
  then show ?thesis using chk by (simp add: handle_def)
qed

theorem exempt_route_reaches_handler_witness:
  "(Path (sample_context ''POST'' ''/validation'' []), [''GET'', ''POST''])
      \<in> set (ExemptRoutes sample_config)
   \<and> Method (Req (sample_context ''POST'' ''/validation'' [])) \<in> set [''GET'', ''POST'']
   \<and> OpenAPIWithConfig sample_collaborators sample_config
        = Inr (handle sample_collaborators (fill_defaults sample_config))
   \<and> handle sample_collaborators (fill_defaults sample_config) ok_handler
        (sample_context ''POST'' ''/validation'' [])
      = ok_handler (record_call CallNext (sample_context ''POST'' ''/validation'' []))"
proof -
  have a: "(Path (sample_context ''POST'' ''/validation'' []), [''GET'', ''POST''])
      \<in> set (ExemptRoutes sample_config)"
    by (simp add: sample_context_def sample_config_def)
  have b: "Method (Req (sample_context ''POST'' ''/validation'' [])) \<in> set [''GET'', ''POST'']"
    by (simp add: sample_context_def sample_request_def)
  have c: "OpenAPIWithConfig sample_collaborators sample_config
        = Inr (handle sample_collaborators (fill_defaults sample_config))"
    by (simp add: OpenAPIWithConfig_def)
  show ?thesis
    using a b c exempt_route_reaches_handler [OF a b c, of ok_handler] by simp
qed


section \<open>The handler: no content, the validator key, invalid responses\<close>

text \<open>
  C9. With the status code 204, \<open>Validate\<close> (and \<open>ValidateWithContentType\<close>) of both
  variants of the handler return at once what \<open>c.NoContent\<close> returns: the context
  afterwards differs from the one before only in the written no-content response, so
  the store was not read, nothing was marshalled and the response was not validated,
  whatever the configuration, the collaborators and the value are.
\<close>

theorem no_content_short_circuits:
  "Validate_first env h c 204 v
     = (None, c\<lparr>Status := 204, written := written c @ [WriteNoContent 204]\<rparr>)
   \<and> Validate_second conv env h c 204 v
     = (None, c\<lparr>Status := 204, written := written c @ [WriteNoContent 204]\<rparr>)
   \<and> ValidateWithContentType_first env h c 204 contentType v
     = (None, c\<lparr>Status := 204, written := written c @ [WriteNoContent 204]\<rparr>)
   \<and> ValidateWithContentType_second conv env h c 204 contentType v
     = (None, c\<lparr>Status := 204, written := written c @ [WriteNoContent 204]\<rparr>)"
  by (simp add: Validate_first_def Validate_second_def ValidateWithContentType_first_def
      ValidateWithContentType_second_def validate_first_def validate_second_def NoContent_def)

lemma get_input_None:
  "store c key = None \<or> (\<exists>x. store c key = Some (StoredOther x)) \<Longrightarrow> get_input c key = None"
  by (auto simp: get_input_def)

lemma get_input_record_call [simp]: "get_input (record_call x c) key = get_input c key"
  by (simp add: get_input_def record_call_def)

lemma written_record_call [simp]: "written (record_call x c) = written c"
  by (simp add: record_call_def)

lemma written_log_entry [simp]: "written (log_entry x c) = written c"
  by (simp add: log_entry_def)

lemma get_input_Status [simp]: "get_input (c\<lparr>Status := n\<rparr>) key = get_input c key"
  by (simp add: get_input_def)

text \<open>
  C10. With a status code other than 204, when the store holds nothing under the
  configured validator key, or holds a value that is not a request validation
  input, \<open>Validate\<close> of both variants returns the error
  \<open>validator key is wrong type\<close>. The context afterwards records the read of the
  store and nothing else: nothing was marshalled, the response was not validated and
  nothing was written. (The second variant has by then assigned the status field of
  the response, which writes nothing.)
\<close>

theorem wrong_validator_key_writes_nothing:
  assumes "code \<noteq> 204"
    and "store c (ValidatorKey h) = None \<or> (\<exists>x. store c (ValidatorKey h) = Some (StoredOther x))"
  shows "Validate_first env h c code v
           = (Some (Errorf ''validator key is wrong type''),
              record_call (CallGet (ValidatorKey h)) c)
       \<and> Validate_second conv env h c code v
           = (Some (Errorf ''validator key is wrong type''),
              record_call (CallGet (ValidatorKey h)) (c\<lparr>Status := code\<rparr>))
       \<and> written (snd (Validate_first env h c code v)) = written c
       \<and> written (snd (Validate_second conv env h c code v)) = written c"
proof -
  have g: "get_input c (ValidatorKey h) = None"
    using assms(2) by (rule get_input_None)
  have a: "Validate_first env h c code v
           = (Some (Errorf ''validator key is wrong type''),
              record_call (CallGet (ValidatorKey h)) c)"
    using assms(1) g by (simp add: Validate_first_def validate_first_def)
  have b: "Validate_second conv env h c code v
           = (Some (Errorf ''validator key is wrong type''),
              record_call (CallGet (ValidatorKey h)) (c\<lparr>Status := code\<rparr>))"
    using assms(1) g by (simp add: Validate_second_def validate_second_def)
  show ?thesis
    unfolding a b by (simp add: record_call_def)
qed

theorem wrong_validator_key_writes_nothing_witness:
  "(200::int) \<noteq> 204
   \<and> store (sample_context ''GET'' ''/'' []) (ValidatorKey DefaultHandlerConfig) = None
   \<and> Validate_first sample_handler_collaborators DefaultHandlerConfig
        (sample_context ''GET'' ''/'' []) 200 (AString ''welcome'')
      = (Some (Errorf ''validator key is wrong type''),
         record_call (CallGet ''validator'') (sample_context ''GET'' ''/'' []))
   \<and> written (snd (Validate_second convertError sample_handler_collaborators DefaultHandlerConfig
        (sample_context ''GET'' ''/'' []) 200 (AString ''welcome''))) = []"
proof -
  have a: "(200::int) \<noteq> 204" by simp
  have b: "store (sample_context ''GET'' ''/'' []) (ValidatorKey DefaultHandlerConfig) = None"
    by (simp add: sample_context_def)
  have b': "store (sample_context ''GET'' ''/'' []) (ValidatorKey DefaultHandlerConfig) = None
      \<or> (\<exists>x. store (sample_context ''GET'' ''/'' []) (ValidatorKey DefaultHandlerConfig)
                = Some (StoredOther x))"
    using b by simp
  have w: "written (sample_context ''GET'' ''/'' []) = []"
    by (simp add: sample_context_def)
  have k: "ValidatorKey DefaultHandlerConfig = ''validator''"
    by (simp add: DefaultHandlerConfig_def)
  show ?thesis
    using a b w k
      wrong_validator_key_writes_nothing [OF a b', of sample_handler_collaborators
        "AString ''welcome''" convertError]
    by (simp add: record_call_def)
qed

text \<open>
  The first variant (lines 112-119) returns an error for every error of
  \<open>ValidateResponse\<close> and writes nothing.
\<close>

lemma validate_first_invalid_response:
  assumes "code \<noteq> 204"
    and "get_input c (ValidatorKey h) = Some input"
    and "marshal_first env (record_call (CallGet (ValidatorKey h)) c) contentType v = (Inr b, c2)"
    and "ValidateResponse env
           \<lparr>RequestInput = input, ResponseStatus = code,
            ResponseHeader = Header c2 @ [(''Content-Type'', contentType)],
            OptExcludeRequestBody = ExcludeRequestBody h,
            OptExcludeResponseBody = ExcludeResponseBody h,
            OptIncludeResponseStatus = IncludeResponseStatus h,
            OptMultiError = MultiErrorOption h, BodyBytes = b\<rparr> = Some err"
  shows "fst (validate_first env h c code contentType v)
           = Some (Errorf (''failed validating response: '' @ Error err))
       \<and> written (snd (validate_first env h c code contentType v)) = written c2"
  using assms
  by (simp add: validate_first_def header_Add_def Let_def)

text \<open>
  The second variant (lines 255-275) returns an error when the response error holds
  a multi-error, and for every error that is no response error.
\<close>

lemma after_validation_second_multi:
  "after_validation_second conv h c code b (Some (ResponseError (Some (MultiError me t)) t'))
     = (Some (Errorf (''failed validating response: '' @ Join (flatten_issues (conv me)) ''; '')), c)"
  by (simp add: after_validation_second_def)

lemma after_validation_second_other:
  "\<forall>e t. err \<noteq> ResponseError e t \<Longrightarrow>
   after_validation_second conv h c code b (Some err)
     = (Some (Errorf (''failed validating response: '' @ Error err)), c)"
  by (cases err) (auto simp: after_validation_second_def)

text \<open>
  A response error whose \<open>Err\<close> is no multi-error is matched by the case of line 257,
  fails the assertion of line 258 and leaves the switch: line 281 sends the body.
\<close>

lemma after_validation_second_falls_through:
  "\<forall>me t. e \<noteq> Some (MultiError me t) \<Longrightarrow>
   after_validation_second conv h c code b (Some (ResponseError e t'))
     = Blob c code (ContentType h) b"
  by (auto simp: after_validation_second_def split: option.splits go_error.splits)

text \<open>
  C6, at a failing input. The second variant of the handler, with the default
  configuration, is given the value 42 for \<open>GET /\<close>, whose response is declared an
  object; the response validation answers with a response error whose \<open>Err\<close> is a single
  schema error. \<open>Validate\<close> returns no error and the invalid body is written to the
  client with status 200.
\<close>

theorem invalid_response_sent_by_second_variant:
  "ValidateResponse sample_handler_collaborators
      \<lparr>RequestInput = sample_input, ResponseStatus = 200,
       ResponseHeader = [(''Content-Type'', ''application/json'')],
       OptExcludeRequestBody = False, OptExcludeResponseBody = False,
       OptIncludeResponseStatus = True, OptMultiError = True, BodyBytes = ''42''\<rparr>
     = Some not_an_object
   \<and> fst (Validate_second convertError sample_handler_collaborators DefaultHandlerConfig
        sample_handler_context 200 (AOther ''42'')) = None
   \<and> written (snd (Validate_second convertError sample_handler_collaborators DefaultHandlerConfig
        sample_handler_context 200 (AOther ''42'')))
      = [WriteBlob 200 ''application/json'' ''42'']"
  by (simp add: Validate_second_def validate_second_def marshal_second_def
      after_validation_second_def sample_handler_collaborators_def DefaultHandlerConfig_def
      sample_handler_context_def sample_context_def get_input_def record_call_def
      header_Add_def header_Set_def Blob_def HasPrefix_def ApplicationJSON_def
      not_an_object_def Let_def)


section \<open>Route resolution\<close>

lemma OpenAPIWithConfig_total:
  "OpenAPIWithConfig env config = Inr (handle env (fill_defaults config))"
  by (simp add: OpenAPIWithConfig_def)

lemma Schema_fill_defaults [simp]: "Schema (fill_defaults config) = Schema config"
  by (simp add: fill_defaults_def Let_def)

lemma resolve_and_validate_route_error:
  assumes "FindRoute env r (Req c) = Inl err"
  shows "resolve_and_validate env config next r c
           = (Some (if err = ErrPathNotFound then HTTPError 404 ''Path not found''
                    else if err = ErrMethodNotAllowed then HTTPError 405 ''Method not allowed''
                    else err),
              log_entry (LogDebugf (URL (Req c)) (error_text err)) (record_call CallFindRoute c))"
  using assms by (simp add: resolve_and_validate_def Let_def record_call_def)

text \<open>
  C5. For a request that reaches route resolution (not skipped, not exempt, the
  document loaded, validated and turned into a router), a failure of \<open>FindRoute\<close>
  ends the request with an error, nothing written and the downstream handler not
  called: the sentinel
  \<open>ErrPathNotFound\<close> becomes the HTTP error 404 \<open>Path not found\<close>, the sentinel
  \<open>ErrMethodNotAllowed\<close> becomes the HTTP error 405 \<open>Method not allowed\<close>, and every
  other error is returned as it is. The two are recognised by comparison with the
  sentinel values, not by their text.
\<close>

theorem route_resolution_errors:
  assumes "OpenAPIWithConfig env config = Inr mw"
    and "\<not> skips (fill_defaults config) c"
    and "\<not> check (Path c) (Method (Req c)) (ExemptRoutes config)"
    and "LoadFromFile env (Schema config) = Inr schema"
    and "ValidateSchema env schema = None"
    and "NewRouter env schema = Inr r"
    and "FindRoute env r (Req c) = Inl err"
  shows "fst (mw next c)
           = Some (if err = ErrPathNotFound then HTTPError 404 ''Path not found''
                   else if err = ErrMethodNotAllowed then HTTPError 405 ''Method not allowed''
                   else err)
       \<and> written (snd (mw next c)) = written c
       \<and> calls (snd (mw next c))
           = calls c @ [CallLoadFromFile (Schema config), CallValidate, CallNewRouter, CallFindRoute]"
proof -
  have mw: "mw = handle env (fill_defaults config)"
    using assms(1) by (simp add: OpenAPIWithConfig_def)
  let ?c3 = "record_call CallNewRouter (record_call CallValidate
               (record_call (CallLoadFromFile (Schema config)) c))"
  have f: "FindRoute env r (Req ?c3) = Inl err"
    using assms(7) by (simp add: record_call_def)
  have h: "mw next c = resolve_and_validate env (fill_defaults config) next r ?c3"
    using assms(2-6) by (simp add: mw handle_def Let_def)
  show ?thesis
    unfolding h resolve_and_validate_route_error [OF f]
    by (auto simp: record_call_def log_entry_def)
qed

theorem route_resolution_errors_witness:
  "fst (handle sample_collaborators (fill_defaults (sample_config\<lparr>ExemptRoutes := []\<rparr>)) ok_handler
         (sample_context ''GET'' ''/notfound'' [])) = Some (HTTPError 404 ''Path not found'')
   \<and> fst (handle sample_collaborators (fill_defaults (sample_config\<lparr>ExemptRoutes := []\<rparr>)) ok_handler
         (sample_context ''POST'' ''/'' [])) = Some (HTTPError 405 ''Method not allowed'')
   \<and> fst (handle sample_collaborators (fill_defaults (sample_config\<lparr>ExemptRoutes := []\<rparr>)) ok_handler
         (sample_context ''GET'' ''/broken'' []))
       = Some (LibraryError ''no matching operation was found'')
   \<and> error_text (LibraryError ''no matching operation was found'') = error_text ErrPathNotFound"
proof -
  let ?cfg = "sample_config\<lparr>ExemptRoutes := []\<rparr>"
  have mw: "OpenAPIWithConfig sample_collaborators ?cfg
              = Inr (handle sample_collaborators (fill_defaults ?cfg))"
    by (simp add: OpenAPIWithConfig_def)
  have sk: "\<And>c. \<not> skips (fill_defaults ?cfg) c"
    by (simp add: skips_def fill_defaults_def sample_config_def DefaultConfig_def
        DefaultSkipper_def Let_def)
  have ck: "\<And>c. \<not> check (Path c) (Method (Req c)) (ExemptRoutes ?cfg)"
    by simp
  have ld: "LoadFromFile sample_collaborators (Schema ?cfg) = Inr ()"
    by (simp add: sample_collaborators_def sample_config_def)
  have vs: "ValidateSchema sample_collaborators () = None"
    by (simp add: sample_collaborators_def)
  have nr: "NewRouter sample_collaborators () = Inr ()"
    by (simp add: sample_collaborators_def)
  have f1: "FindRoute sample_collaborators () (Req (sample_context ''GET'' ''/notfound'' []))
              = Inl ErrPathNotFound"
    by (simp add: sample_collaborators_def sample_find_route_def sample_context_def
        sample_request_def)
  have f2: "FindRoute sample_collaborators () (Req (sample_context ''POST'' ''/'' []))
              = Inl ErrMethodNotAllowed"
    by (simp add: sample_collaborators_def sample_find_route_def sample_context_def
        sample_request_def)
  have f3: "FindRoute sample_collaborators () (Req (sample_context ''GET'' ''/broken'' []))
              = Inl (LibraryError ''no matching operation was found'')"
    by (simp add: sample_collaborators_def sample_find_route_def sample_context_def
        sample_request_def)
  show ?thesis
    using route_resolution_errors [OF mw sk ck ld vs nr f1, of ok_handler]
      route_resolution_errors [OF mw sk ck ld vs nr f2, of ok_handler]
      route_resolution_errors [OF mw sk ck ld vs nr f3, of ok_handler]
    by simp
qed

section \<open>Schema loading\<close>

text \<open>
  C2, at a failing input: the configuration \<open>Schema: "/invalid/path"\<close> of the test
  \<open>TestOpenAPIWithConfig_Schema_Load_Panics\<close>. The construction of src/openapi.go
  returns the middleware; the document is loaded when a request arrives, and the
  request gets the loader's error. Also for a document that loads, each request that
  is neither skipped nor exempt loads and validates it and builds the router again.
\<close>

theorem schema_loaded_on_each_request:
  "OpenAPIWithConfig sample_collaborators (sample_config\<lparr>Schema := ''/invalid/path''\<rparr>)
     = Inr (handle sample_collaborators (fill_defaults (sample_config\<lparr>Schema := ''/invalid/path''\<rparr>)))
   \<and> fst (handle sample_collaborators (fill_defaults (sample_config\<lparr>Schema := ''/invalid/path''\<rparr>))
           ok_handler (sample_context ''GET'' ''/'' []))
       = Some (LibraryError ''no such file or directory'')
   \<and> calls (snd (handle sample_collaborators
                    (fill_defaults (sample_config\<lparr>Schema := ''/invalid/path''\<rparr>))
                    ok_handler (sample_context ''GET'' ''/'' [])))
       = [CallLoadFromFile ''/invalid/path'']
   \<and> calls (snd (handle sample_collaborators (fill_defaults sample_config)
                    ok_handler (sample_context ''GET'' ''/'' [])))
       = [CallLoadFromFile ''./fixtures/openapi.yaml'', CallValidate, CallNewRouter,
          CallFindRoute, CallValidateRequest, CallSet ''validator'', CallNext]"
  by (simp add: OpenAPIWithConfig_def handle_def resolve_and_validate_def skips_def
      fill_defaults_def sample_config_def DefaultConfig_def DefaultSkipper_def
      sample_collaborators_def sample_find_route_def sample_validate_request_def
      sample_context_def sample_request_def ok_handler_def record_call_def log_entry_def
      Let_def)


section \<open>Request validation failures\<close>

lemma report_request_error_422:
  "\<exists>errors. report_request_error c err = JSONValidationError c 422 ''Validation error'' errors"
  by (cases err) (auto simp: report_request_error_def)

lemma convertError_request_body_only:
  "\<forall>es t'. e \<noteq> Some (MultiError es t') \<Longrightarrow> convertError [RequestError None rb e t] = []"
proof (cases e)
  case None
  then show ?thesis by (simp add: convertError_def)
next
  case (Some x)
  assume "\<forall>es t'. e \<noteq> Some (MultiError es t')"
  with Some show ?thesis by (cases x) (simp_all add: convertError_def)
qed

text \<open>
  C1, at a failing input: \<open>POST /validation\<close> with an empty body, the case
  \<open>no body\<close> of \<open>TestOpenAPIWithConfig_Request_Validation\<close>. Request validation
  answers with a multi-error holding one request error with a request body, no
  parameter and a cause that is no multi-error. \<open>convertError\<close> of src/openapi.go
  files nothing for it, under \<open>body\<close> or any other key, and the middleware writes
  status 422 with an empty list of errors.
\<close>

theorem missing_body_answered_with_422:
  "ValidateRequest sample_collaborators
      \<lparr>InputRequest = sample_request ''POST'' ''/validation'' [], PathParams = [], Route = (),
       InputMultiError = True\<rparr>
     = Some (MultiError [missing_body_error]
               ''request body has an error: value is required but missing'')
   \<and> convertError [missing_body_error] = []
   \<and> lookup (convertError [missing_body_error]) ''body'' = []
   \<and> handle sample_collaborators (fill_defaults (sample_config\<lparr>ExemptRoutes := []\<rparr>)) ok_handler
        (sample_context ''POST'' ''/validation'' [])
      = (None, (sample_context ''POST'' ''/validation'' [])
                 \<lparr>Status := 422, written := [WriteJSON 422 ''Validation error'' []],
                  calls := [CallLoadFromFile ''./fixtures/openapi.yaml'', CallValidate,
                            CallNewRouter, CallFindRoute, CallValidateRequest]\<rparr>)"
  by (simp add: handle_def resolve_and_validate_def report_request_error_def
      JSONValidationError_def flatten_issues_def convertError_def missing_body_error_def
      skips_def fill_defaults_def sample_config_def DefaultConfig_def DefaultSkipper_def
      sample_collaborators_def sample_find_route_def sample_validate_request_def
      sample_context_def sample_request_def record_call_def Let_def)


section \<open>The converter\<close>

subsection \<open>The issue map under the loop\<close>


lemma lookup_append_issue:
  "lookup (append_issue k msgs m) k' = (if k' = k then lookup m k @ msgs else lookup m k')"
  by (induction k msgs m rule: append_issue.induct) auto

lemma keys_append_issue: "set (map fst (append_issue k msgs m)) = insert k (set (map fst m))"
  by (induction k msgs m rule: append_issue.induct) auto

lemma distinct_append_issue:
  "distinct (map fst m) \<Longrightarrow> distinct (map fst (append_issue k msgs m))"
  by (induction k msgs m rule: append_issue.induct) (auto simp: keys_append_issue simp del: set_map)

lemma lookup_absent: "k \<notin> set (map fst m) \<Longrightarrow> lookup m k = []"
  by (induction m) auto

lemma lookup_merge_issues:
  "distinct (map fst n) \<Longrightarrow> lookup (merge_issues n m) k = lookup m k @ lookup n k"
  by (induction n m rule: merge_issues.induct) (auto simp: lookup_append_issue lookup_absent)

lemma keys_merge_issues:
  "set (map fst (merge_issues n m)) = set (map fst m) \<union> set (map fst n)"
  by (induction n m rule: merge_issues.induct) (auto simp: keys_append_issue simp del: set_map)

lemma distinct_merge_issues:
  "distinct (map fst m) \<Longrightarrow> distinct (map fst (merge_issues n m))"
  by (induction n m rule: merge_issues.induct) (auto simp: distinct_append_issue)

lemma convert_loop_distinct:
  "distinct (map fst issues) \<Longrightarrow> distinct (map fst (convert_loop me issues))"
  by (induction me issues rule: convert_loop.induct)
     (simp_all add: distinct_append_issue distinct_merge_issues)

lemma convert_loop_lookup:
  "lookup (convert_loop me issues) k
     = lookup issues k @ map snd (filter (\<lambda>e. fst e = k) (discovered me))"
  by (induction me issues rule: convert_loop.induct)
     (simp_all add: lookup_append_issue lookup_merge_issues convert_loop_distinct)

lemma convert_loop_keys:
  "set (map fst (convert_loop me issues)) = set (map fst issues) \<union> set (map fst (discovered me))"
  by (induction me issues rule: convert_loop.induct)
     (simp_all add: keys_append_issue keys_merge_issues Un_assoc del: set_map)


subsection \<open>Sorted keys and stable sorting\<close>


lemma concat_select:
  "distinct ks \<Longrightarrow>
   concat (map (\<lambda>k. if k = k0 then A else []) ks) = (if k0 \<in> set ks then A else [])"
  by (induction ks) auto

lemma filter_blocks:
  assumes "distinct ks"
  shows "filter (\<lambda>e. fst e = k0) (concat (map (\<lambda>k. filter (\<lambda>e. fst e = k) xs) ks))
           = (if k0 \<in> set ks then filter (\<lambda>e. fst e = k0) xs else [])"
proof -
  have "filter (\<lambda>e. fst e = k0) (concat (map (\<lambda>k. filter (\<lambda>e. fst e = k) xs) ks))
          = concat (map (\<lambda>k. if k = k0 then filter (\<lambda>e. fst e = k0) xs else []) ks)"
    by (induction ks) (auto intro: filter_cong)
  then show ?thesis using assms by (simp add: concat_select)
qed

lemma mset_blocks:
  "distinct ks \<Longrightarrow>
   mset (concat (map (\<lambda>k. filter (\<lambda>e. fst e = k) xs) ks))
     = mset (filter (\<lambda>e. fst e \<in> set ks) xs)"
proof (induction ks)
  case Nil
  show ?case by simp
next
  case (Cons k ks)
  then have "k \<notin> set ks" by simp
  then have "mset (filter (\<lambda>e. fst e = k) xs) + mset (filter (\<lambda>e. fst e \<in> set ks) xs)
               = mset (filter (\<lambda>e. fst e \<in> set (k # ks)) xs)"
    by (induction xs) auto
  with Cons show ?case by simp
qed

lemma keys_blocks:
  "set (map fst (concat (map (\<lambda>k. filter (\<lambda>e. fst e = k) xs) ks))) \<subseteq> set ks"
  by (induction ks) auto

lemma sorted_blocks:
  fixes ks :: "'k::linorder list"
  shows "sorted ks \<Longrightarrow> sorted (map fst (concat (map (\<lambda>k. filter (\<lambda>e. fst e = k) xs) ks)))"
proof (induction ks)
  case Nil
  show ?case by simp
next
  case (Cons k ks)
  have "\<forall>y \<in> set (map fst (concat (map (\<lambda>k. filter (\<lambda>e. fst e = k) xs) ks))). k \<le> y"
    using keys_blocks [of xs ks] Cons.prems by auto
  moreover have "sorted (map fst (filter (\<lambda>e. fst e = k) xs))"
    by (induction xs) auto
  ultimately show ?case using Cons by (auto simp: sorted_append)
qed

lemma blocks_are_stable_sort:
  fixes xs :: "('k::linorder \<times> 'v) list"
  assumes "distinct ks" and "sorted ks" and "set ks = set (map fst xs)"
  shows "concat (map (\<lambda>k. filter (\<lambda>e. fst e = k) xs) ks) = sort_key fst xs"
proof (rule properties_for_sort_key [symmetric])
  let ?ys = "concat (map (\<lambda>k. filter (\<lambda>e. fst e = k) xs) ks)"
  have "filter (\<lambda>e. fst e \<in> set ks) xs = xs"
    using assms(3) by (auto simp: filter_id_conv)
  then show "mset ?ys = mset xs"
    using mset_blocks [OF assms(1), of xs] by simp
  show "sorted (map fst ?ys)"
    using assms(2) by (rule sorted_blocks)
  fix e assume "e \<in> set ?ys"
  then have "fst e \<in> set ks" using keys_blocks [of xs ks] by auto
  then have "filter (\<lambda>x. fst x = fst e) ?ys = filter (\<lambda>x. fst x = fst e) xs"
    using filter_blocks [OF assms(1), of "fst e" xs] by simp
  then show "filter (\<lambda>x. fst e = fst x) ?ys = filter (\<lambda>x. fst e = fst x) xs"
    by (simp add: eq_commute)
qed

lemma flatten_is_stable_sort:
  "flatten_issues (convertError me) = map snd (sort_key fst (discovered me))"
proof -
  let ?issues = "convertError me"
  let ?ks = "sort (map fst ?issues)"
  have d: "distinct (map fst ?issues)"
    unfolding convertError_def by (rule convert_loop_distinct) simp
  have l: "lookup ?issues = (\<lambda>k. map snd (filter (\<lambda>e. fst e = k) (discovered me)))"
    by (rule ext) (simp add: convertError_def convert_loop_lookup)
  have s: "set ?ks = set (map fst (discovered me))"
    using convert_loop_keys [of me "[]"] by (simp add: convertError_def del: set_map)
  have "flatten_issues ?issues
          = concat (map (\<lambda>k. map snd (filter (\<lambda>e. fst e = k) (discovered me))) ?ks)"
    by (simp add: flatten_issues_def l)
  also have "\<dots> = map snd (concat (map (\<lambda>k. filter (\<lambda>e. fst e = k) (discovered me)) ?ks))"
    by (simp add: map_concat comp_def)
  also have "concat (map (\<lambda>k. filter (\<lambda>e. fst e = k) (discovered me)) ?ks)
               = sort_key fst (discovered me)"
    using d s by (intro blocks_are_stable_sort) simp_all
  finally show ?thesis .
qed

lemma discovered_Cons: "discovered (e # rest) = discovered [e] @ discovered rest"
  by (cases "e # rest" rule: discovered.cases) auto

lemma mset_discovered:
  "mset (discovered me) = (\<Sum>e\<in>#mset me. mset (discovered [e]))"
proof (induction me)
  case Nil
  show ?case by simp
next
  case (Cons e me)
  then show ?case by (subst discovered_Cons) simp
qed

lemma flatten_permutation:
  assumes "mset me = mset me'" and "distinct (map fst (discovered me))"
  shows "flatten_issues (convertError me) = flatten_issues (convertError me')"
proof -
  have m: "mset (discovered me) = mset (discovered me')"
    by (simp only: mset_discovered [of me] mset_discovered [of me'] assms(1))
  have i: "inj_on fst (set (discovered me))"
    using assms(2) by (simp add: distinct_map)
  have "sort_key fst (discovered me) = sort_key fst (discovered me')"
    by (rule sort_key_inj_key_eq) (simp_all add: m i)
  then show ?thesis by (simp add: flatten_is_stable_sort)
qed


subsection \<open>Schema errors\<close>

lemma schema_message_eq:
  "schema_message path reason
     = map (\<lambda>c. if c = CHR 0x22 then CHR 0x27 else c)
         (if Join path ''.'' = [] then reason else Join path ''.'' @ '': '' @ reason)"
  by (cases path) (simp_all add: schema_message_def ReplaceAll_def Let_def replace_from_single)





subsection \<open>Parameter errors\<close>

lemma parameter_error_filed:
  "convertError [RequestError (Some p) rb e t] = [(In p @ ''.'' @ Name p, [t])]"
  by (simp add: convertError_def)

text \<open>
  C7, at a failing input: the path parameter \<open>username=a\<close> against \<open>minLength: 2\<close>,
  the case \<open>path error\<close> of \<open>TestOpenAPIWithConfig_Request_Validation\<close>. The key is
  \<open>path.username\<close>, as claimed; the message is the text of \<open>err.Error()\<close> as it is,
  with all the lines of the cause, and not the one line the claim and the test
  give.
\<close>

theorem parameter_error_text_unchanged:
  "convertError [username_too_short] = [(''path.username'', [Error username_too_short])]
   \<and> Error username_too_short
       \<noteq> ''parameter '' @ [CHR 0x27] @ ''username'' @ [CHR 0x27]
           @ '' in path has an error: minimum string length is 2''
   \<and> CHR 0x0A \<in> set (Error username_too_short)"
  by (simp add: convertError_def username_too_short_def quoted_def schema_and_value_def)

subsection \<open>The order of the messages\<close>

text \<open>
  C4, as the claim states it, fails: the same two raw errors, found in the two
  possible orders, give two different lists of messages.
\<close>

theorem message_order_counterexample:
  "mset [username_not_a_string, property_unsupported]
     = mset [property_unsupported, username_not_a_string]
   \<and> flatten_issues (convertError [username_not_a_string, property_unsupported])
     = [''username: value must be a string'',
        ''property '' @ [CHR 0x27] @ ''invalid'' @ [CHR 0x27] @ '' is unsupported'']
   \<and> flatten_issues (convertError [property_unsupported, username_not_a_string])
     = [''property '' @ [CHR 0x27] @ ''invalid'' @ [CHR 0x27] @ '' is unsupported'',
        ''username: value must be a string'']"
  by (simp add: convertError_def username_not_a_string_def property_unsupported_def
      quoted_def schema_message_eq flatten_issues_def)

text \<open>
  C4, amended. The list of messages is the list of discovered pairs of key and
  message, sorted by key with a stable sort: messages with different keys come in
  the order of their keys, messages with the same key in the order of discovery.
  So when no two of the discovered messages share a key, the list is the same for
  every order in which the same raw errors are found. Being a function of the raw
  errors, the list is the same whenever they are.
\<close>

theorem messages_sorted_by_key:
  "flatten_issues (convertError me) = map snd (sort_key fst (discovered me))
   \<and> (mset me' = mset me \<and> distinct (map fst (discovered me))
        \<longrightarrow> flatten_issues (convertError me') = flatten_issues (convertError me))"
  using flatten_is_stable_sort [of me] flatten_permutation [of me me'] by auto

theorem messages_sorted_by_key_witness:
  "mset [limit_too_large, username_too_short] = mset [username_too_short, limit_too_large]
   \<and> distinct (map fst (discovered [username_too_short, limit_too_large]))
   \<and> flatten_issues (convertError [limit_too_large, username_too_short])
     = flatten_issues (convertError [username_too_short, limit_too_large])
   \<and> flatten_issues (convertError [username_too_short, limit_too_large])
     = [Error username_too_short, Error limit_too_large]"
proof -
  have m: "mset [limit_too_large, username_too_short]
             = mset [username_too_short, limit_too_large]"
    by simp
  have d: "distinct (map fst (discovered [username_too_short, limit_too_large]))"
    by (simp add: username_too_short_def limit_too_large_def)
  have f: "flatten_issues (convertError [username_too_short, limit_too_large])
             = [Error username_too_short, Error limit_too_large]"
    by (simp add: convertError_def flatten_issues_def username_too_short_def
        limit_too_large_def)
  show ?thesis
    using m d f
      messages_sorted_by_key [of "[username_too_short, limit_too_large]"
        "[limit_too_large, username_too_short]"]
    by blast
qed


section \<open>The later variant of the middleware\<close>

text \<open>
  What the later text of the middleware does where it differs from src/openapi.go:
  the first line of the cause in the message of a parameter error, the field as key
  of a schema error, the \<open>body\<close> entry answered with status 400, and the document
  loaded when the middleware is built.
\<close>

lemma Split_first: "\<exists>xs. Split s sep = takeWhile (\<lambda>c. c \<noteq> sep) s # xs"
  by (induction s) (auto split: list.splits)

lemma parameter_message_later_first_line:
  "parameter_message_later p (Some cause)
     = Some (''parameter '' @ [CHR 0x27] @ Name p @ [CHR 0x27] @ '' in '' @ In p
             @ '' has an error: '' @ takeWhile (\<lambda>c. c \<noteq> CHR 0x0A) (Error cause))"
proof -
  obtain xs where "Split (Error cause) (CHR 0x0A)
                     = takeWhile (\<lambda>c. c \<noteq> CHR 0x0A) (Error cause) # xs"
    using Split_first by blast
  then show ?thesis by (simp add: parameter_message_later_def)
qed

lemma parameter_error_later:
  "convertError_later [RequestError (Some p) rb (Some cause) t]
     = Some [(In p @ ''.'' @ Name p,
              [''parameter '' @ [CHR 0x27] @ Name p @ [CHR 0x27] @ '' in '' @ In p
               @ '' has an error: '' @ takeWhile (\<lambda>c. c \<noteq> CHR 0x0A) (Error cause)])]"
  by (simp add: convertError_later_def parameter_message_later_first_line)

lemma parameter_error_later_sample:
  "convertError_later [username_too_short]
     = Some [(''path.username'',
              [''parameter '' @ [CHR 0x27] @ ''username'' @ [CHR 0x27]
               @ '' in path has an error: minimum string length is 2''])]"
  by (simp add: username_too_short_def parameter_error_later schema_and_value_def)

lemma schema_error_later:
  "convertError_later [SchemaError path reason t]
     = Some [(Join path ''.'',
              [map (\<lambda>c. if c = CHR 0x22 then CHR 0x27 else c)
                 (if Join path ''.'' = [] then reason else Join path ''.'' @ '': '' @ reason)])]"
  by (cases path) (simp_all add: convertError_later_def schema_field_def schema_message_eq)

lemma body_error_later:
  "\<forall>es t'. e \<noteq> Some (MultiError es t') \<Longrightarrow>
   convertError_later [RequestError None True e t] = Some [(''body'', [t])]"
proof (cases e)
  case None
  then show ?thesis by (simp add: convertError_later_def)
next
  case (Some x)
  assume "\<forall>es t'. e \<noteq> Some (MultiError es t')"
  with Some show ?thesis by (cases x) (simp_all add: convertError_later_def)
qed

lemma missing_body_later:
  "report_request_error_later c
     (MultiError [missing_body_error] ''request body has an error: value is required but missing'')
   = Some (JSONValidationError c 400 ''Request error''
             [''request body has an error: value is required but missing''])"
  by (simp add: report_request_error_later_def convertError_later_def missing_body_error_def)

lemma missing_body_later_pipeline:
  "OpenAPIWithConfig_later sample_collaborators_later sample_config_later
     = Inr (handle_later sample_collaborators_later
              (sample_config_later\<lparr>Skipper := Some DefaultSkipper, ContextKey := ''validator''\<rparr>) ())
   \<and> handle_later sample_collaborators_later
        (sample_config_later\<lparr>Skipper := Some DefaultSkipper, ContextKey := ''validator''\<rparr>) ()
        ok_handler_later (sample_context ''POST'' ''/validation'' [])
      = Some (None, (sample_context ''POST'' ''/validation'' [])
                 \<lparr>Status := 400,
                  written := [WriteJSON 400 ''Request error''
                                [''request body has an error: value is required but missing'']],
                  calls := [CallFindRoute, CallValidateRequest]\<rparr>)"
  by (simp add: OpenAPIWithConfig_later_def handle_later_def report_request_error_later_def
      convertError_later_def missing_body_error_def JSONValidationError_def
      sample_collaborators_later_def sample_config_later_def DefaultSkipper_def
      sample_find_route_def sample_validate_request_def sample_context_def sample_request_def
      record_call_def Let_def)

lemma construction_panics_later:
  "OpenAPIWithConfig_later sample_collaborators_later
     (sample_config_later\<lparr>Schema := ''/invalid/path''\<rparr>)
     = Inl ''failed loading schema file: no such file or directory''
   \<and> OpenAPIWithConfig_later sample_collaborators_later (sample_config_later\<lparr>Schema := []\<rparr>)
     = Inl ''either schema or schemaBytes is required''"
  by (simp add: OpenAPIWithConfig_later_def sample_collaborators_later_def
      sample_config_later_def Let_def)

lemma construction_later_loaded:
  assumes "OpenAPIWithConfig_later env config = Inr mw"
  shows "\<exists>schema router.
           (if SchemaBytes config \<noteq> [] then LoadFromData env (SchemaBytes config)
            else LoadFromFile env (Schema config)) = Inr schema
           \<and> ValidateSchema env schema = None \<and> NewRouter env schema = Inr router"
  using assms
  by (auto simp: OpenAPIWithConfig_later_def Let_def split: if_splits sum.splits option.splits)

lemma calls_JSONValidationError [simp]:
  "calls (snd (JSONValidationError c status msg errors)) = calls c"
  by (simp add: JSONValidationError_def)

lemma report_request_error_later_calls:
  "report_request_error_later c err = Some (res, c') \<Longrightarrow> calls c' = calls c"
  by (auto simp: report_request_error_later_def JSONValidationError_def
      split: go_error.splits option.splits)

lemma handle_later_calls:
  assumes "handle_later env config router (\<lambda>c. Some (None, c)) c = Some (res, c')"
  shows "set (calls c') \<subseteq> set (calls c)
           \<union> {CallFindRoute, CallValidateRequest, CallSet (ContextKey config), CallNext}"
  using assms
  by (auto simp: handle_later_def Let_def record_call_def log_entry_def
      dest!: report_request_error_later_calls
      split: if_splits sum.splits option.splits prod.splits)

lemma valid_request_later:
  "map_option (\<lambda>r. calls (snd r))
     (handle_later sample_collaborators_later
        (sample_config_later\<lparr>Skipper := Some DefaultSkipper, ContextKey := ''validator''\<rparr>) ()
        ok_handler_later (sample_context ''GET'' ''/'' []))
     = Some [CallFindRoute, CallValidateRequest, CallSet ''validator'', CallNext]"
  by (simp add: handle_later_def 
      sample_collaborators_later_def sample_config_later_def DefaultSkipper_def
      sample_find_route_def sample_validate_request_def sample_context_def sample_request_def
      record_call_def Let_def ok_handler_later_def ok_handler_def)

text \<open>
  In src/openapi.go a request that is neither skipped nor exempt meets the loader
  first, and its error ends the request.
\<close>

lemma handle_loads_schema:
  assumes "\<not> skips config c"
    and "\<not> check (Path c) (Method (Req c)) (ExemptRoutes config)"
    and "LoadFromFile env (Schema config) = Inl err"
  shows "handle env config next c
           = (Some err, log_entry (LogErrorf ''error loading schema file'' (error_text err))
                          (record_call (CallLoadFromFile (Schema config)) c))"
  using assms by (simp add: handle_def Let_def)

end
